theory Spec2Isabelle
  imports Complex_Main
begin

section \<open>The Hartree-Fock initial point of qiskit-nature\<close>

text \<open>
  A shallow embedding of the class \<open>HFInitialPoint\<close> of
  \<^verbatim>\<open>qiskit_nature/algorithms/initial_points/hf_initial_point.py\<close>.
  The instance is a record of its attributes, every method is a function from the
  instance (and its arguments) to the updated instance, and a method that can raise
  returns its exception as the left summand of its result.

  A Python \<open>float\<close> is modelled as a \<open>real\<close>: the class never computes with a float, it only
  stores the reference energy it is handed and fills an array with the constant \<open>0.0\<close>.
  The calls into the collaborators (building the operators of a circuit, looking a property
  up in a container) are taken to return; what they return is part of the model.
\<close>

subsection \<open>Collaborators\<close>

text \<open>One excitation: the tuple of occupied indices and the tuple of virtual indices.\<close>

type_synonym excitation = "int list \<times> int list"

text \<open>
  Modelled from the spec: the circuit class \<open>UCC\<close> (\<open>qiskit_nature.circuit.library\<close>) is
  not part of the sources at hand. The spec gives it two operations: one that forces the
  circuit to materialise its operator terms, and a read of the resulting excitation list,
  which is only trustworthy after the first. \<open>ucc_excitation_list\<close> is the attribute as the
  circuit holds it at the moment, \<open>ucc_generated\<close> is the list that building the operators
  produces (\<open>None\<close> when the circuit cannot produce one).
\<close>

record ucc =
  ucc_excitation_list :: "excitation list option"
  ucc_generated :: "excitation list option"

definition ucc_operators :: "ucc \<Rightarrow> ucc" where
  "ucc_operators a = a\<lparr>ucc_excitation_list := ucc_generated a\<rparr>"

text \<open>
  Modelled from the spec: the property \<open>ElectronicEnergy\<close> is not part of the sources at
  hand; it exposes a \<open>reference_energy\<close> field that is a number or null.
\<close>

record electronic_energy =
  reference_energy :: "real option"

text \<open>
  Modelled from the spec: the container \<open>GroupedSecondQuantizedProperty\<close> is not part of
  the sources at hand; it is a keyed collection that is asked for one property kind and
  answers with the property or with its absence. \<open>gp_electronic_energy\<close> is the answer
  of \<open>get_property(ElectronicEnergy)\<close>, \<open>gp_others\<close> names the properties of other
  kinds, which the class never looks at.
\<close>

record grouped_property =
  gp_electronic_energy :: "electronic_energy option"
  gp_others :: "string list"

definition get_property_ElectronicEnergy :: "grouped_property \<Rightarrow> electronic_energy option" where
  "get_property_ElectronicEnergy g = gp_electronic_energy g"

subsection \<open>Exceptions and warnings\<close>

datatype error = QiskitNatureError string | TypeError

definition excitation_list_not_set :: string where
  "excitation_list_not_set =
     ''The excitation list has not been set directly or via the ansatz. '' @
     ''Not enough information has been provided to compute the initial point. '' @
     ''Set the ansatz or call compute with it as an argument. '' @
     ''The ansatz is not required if the excitation list has been set directly.''"

definition electronic_energy_not_obtained :: string where
  "electronic_energy_not_obtained =
     ''The ElectronicEnergy was not obtained from the grouped_property. '' @
     ''The grouped_property and reference_energy will not be set.''"

subsection \<open>The instance\<close>

text \<open>
  The attributes \<open>self._grouped_property\<close>, \<open>self._ansatz\<close>, \<open>self._excitation_list\<close>,
  \<open>self._reference_energy\<close> and \<open>self._parameters\<close>. The reference energy is annotated
  \<open>float\<close>, but the setter of the grouped property can store \<open>None\<close> in it, so the field
  is an option. \<open>emitted_warnings\<close> is not an attribute: it is the sequence of messages
  handed to \<open>warnings.warn\<close> so far, in order.
\<close>

record hf_initial_point =
  self_grouped_property :: "grouped_property option"
  self_ansatz :: "ucc option"
  self_excitation_list :: "excitation list option"
  self_reference_energy :: "real option"
  self_parameters :: "real list option"
  emitted_warnings :: "string list"

text \<open>
  Modelled from the spec: the base class \<open>InitialPoint\<close>, whose initialiser creates
  \<open>self._grouped_property\<close>, is not part of the sources at hand; the spec lets an instance
  start with nothing set, so the attribute starts as \<open>None\<close>.
\<close>

definition super_init_grouped_property :: "grouped_property option" where
  "super_init_grouped_property = None"

text \<open>\<open>__init__\<close>: the initialiser of the base class, then the four attributes of the class.\<close>

definition init :: hf_initial_point where
  "init = \<lparr> self_grouped_property = super_init_grouped_property,
            self_ansatz = None,
            self_excitation_list = None,
            self_reference_energy = Some 0,
            self_parameters = None,
            emitted_warnings = [] \<rparr>"

text \<open>\<open>warnings.warn(message)\<close>.\<close>

definition warn :: "string \<Rightarrow> hf_initial_point \<Rightarrow> hf_initial_point" where
  "warn msg s = s\<lparr>emitted_warnings := emitted_warnings s @ [msg]\<rparr>"

text \<open>Python's \<open>bool(None)\<close>, which the conditional expression of the setter below tests.\<close>

definition truth_of_None :: bool where
  "truth_of_None = False"

text \<open>
  The setter of \<open>grouped_property\<close>. Its last but one line is
  \<^verbatim>\<open>self._reference_energy = electronic_energy.reference_energy if not None else 0.0\<close>:
  the condition is \<open>not None\<close>, not a test of the field.
\<close>

definition grouped_property_setter :: "grouped_property \<Rightarrow> hf_initial_point \<Rightarrow> hf_initial_point" where
  "grouped_property_setter g s =
     (case get_property_ElectronicEnergy g of
        None \<Rightarrow> warn electronic_energy_not_obtained s
      | Some e \<Rightarrow>
          s\<lparr>self_reference_energy := (if \<not> truth_of_None then reference_energy e else Some 0),
            self_grouped_property := Some g\<rparr>)"

text \<open>The getters.\<close>

definition grouped_property_getter :: "hf_initial_point \<Rightarrow> grouped_property option" where
  "grouped_property_getter s = self_grouped_property s"

definition ansatz_getter :: "hf_initial_point \<Rightarrow> ucc option" where
  "ansatz_getter s = self_ansatz s"

definition excitation_list_getter :: "hf_initial_point \<Rightarrow> excitation list option" where
  "excitation_list_getter s = self_excitation_list s"

text \<open>
  The setter of \<open>ansatz\<close>: build the operators, clear the parameters, take the
  excitation list of the circuit, keep the circuit.
\<close>

definition ansatz_setter :: "ucc \<Rightarrow> hf_initial_point \<Rightarrow> hf_initial_point" where
  "ansatz_setter ansatz s =
     (let built = ucc_operators ansatz
      in s\<lparr>self_parameters := None,
           self_excitation_list := ucc_excitation_list built,
           self_ansatz := Some built\<rparr>)"

text \<open>The setter of \<open>excitation_list\<close>.\<close>

definition excitation_list_setter :: "excitation list \<Rightarrow> hf_initial_point \<Rightarrow> hf_initial_point" where
  "excitation_list_setter excitations s =
     s\<lparr>self_parameters := None, self_excitation_list := Some excitations\<rparr>"

text \<open>\<open>np.zeros(n)\<close>.\<close>

definition np_zeros :: "nat \<Rightarrow> real list" where
  "np_zeros n = replicate n 0"

text \<open>\<open>_compute\<close>; \<open>len(None)\<close> raises a \<open>TypeError\<close>.\<close>

definition private_compute :: "hf_initial_point \<Rightarrow> (error + unit) \<times> hf_initial_point" where
  "private_compute s =
     (case self_excitation_list s of
        None \<Rightarrow> (Inl TypeError, s)
      | Some excitations \<Rightarrow> (Inr (), s\<lparr>self_parameters := Some (np_zeros (length excitations))\<rparr>))"

text \<open>\<open>compute(ansatz, grouped_property)\<close>; a missing argument is \<open>None\<close>.\<close>

definition compute ::
  "ucc option \<Rightarrow> grouped_property option \<Rightarrow> hf_initial_point \<Rightarrow> (error + unit) \<times> hf_initial_point" where
  "compute ansatz gp s =
     (let s1 = (case gp of None \<Rightarrow> s | Some g \<Rightarrow> grouped_property_setter g s);
          s2 = (case ansatz of None \<Rightarrow> s1 | Some a \<Rightarrow> ansatz_setter a s1)
      in if self_excitation_list s2 = None
         then (Inl (QiskitNatureError excitation_list_not_set), s2)
         else private_compute s2)"

text \<open>\<open>to_numpy_array\<close>: it returns whatever \<open>self._parameters\<close> holds in the end.\<close>

definition to_numpy_array :: "hf_initial_point \<Rightarrow> (error + real list option) \<times> hf_initial_point" where
  "to_numpy_array s =
     (if self_parameters s = None
      then (case compute None None s of
              (Inl e, s') \<Rightarrow> (Inl e, s')
            | (Inr _, s') \<Rightarrow> (Inr (self_parameters s'), s'))
      else (Inr (self_parameters s), s))"

text \<open>\<open>get_energy\<close>.\<close>

definition get_energy :: "hf_initial_point \<Rightarrow> real option" where
  "get_energy s = self_reference_energy s"

subsection \<open>Sequences of calls\<close>

text \<open>
  The calls a client can make on an instance, and what each hands back: nothing, an
  array (or \<open>None\<close>), or an energy (or \<open>None\<close>). A client that catches the exception of
  a call goes on with the instance as the call left it.
\<close>

datatype call =
    SetAnsatz ucc
  | SetExcitationList "excitation list"
  | SetGroupedProperty grouped_property
  | Compute "ucc option" "grouped_property option"
  | ToNumpyArray
  | GetEnergy

datatype returned = NoValue | Array "real list option" | Energy "real option"

fun exec :: "call \<Rightarrow> hf_initial_point \<Rightarrow> (error + returned) \<times> hf_initial_point" where
  "exec (SetAnsatz a) s = (Inr NoValue, ansatz_setter a s)"
| "exec (SetExcitationList xs) s = (Inr NoValue, excitation_list_setter xs s)"
| "exec (SetGroupedProperty g) s = (Inr NoValue, grouped_property_setter g s)"
| "exec (Compute a g) s =
     (case compute a g s of (Inl e, s') \<Rightarrow> (Inl e, s') | (Inr _, s') \<Rightarrow> (Inr NoValue, s'))"
| "exec ToNumpyArray s =
     (case to_numpy_array s of (Inl e, s') \<Rightarrow> (Inl e, s') | (Inr v, s') \<Rightarrow> (Inr (Array v), s'))"
| "exec GetEnergy s = (Inr (Energy (get_energy s)), s)"

fun run :: "call list \<Rightarrow> hf_initial_point \<Rightarrow> hf_initial_point" where
  "run [] s = s"
| "run (c # cs) s = run cs (snd (exec c s))"

text \<open>Whether a call hands the instance a circuit or an excitation list.\<close>

fun sets_excitations :: "call \<Rightarrow> bool" where
  "sets_excitations (SetAnsatz a) = True"
| "sets_excitations (SetExcitationList xs) = True"
| "sets_excitations (Compute (Some a) g) = True"
| "sets_excitations c = False"

text \<open>
  The cache is consistent when the parameters, if there are any, are the zeros of the
  length of an excitation list that is there.
\<close>

definition cache_consistent :: "hf_initial_point \<Rightarrow> bool" where
  "cache_consistent s =
     (case self_parameters s of
        None \<Rightarrow> True
      | Some p \<Rightarrow> (case self_excitation_list s of
                    None \<Rightarrow> False
                  | Some xs \<Rightarrow> p = np_zeros (length xs)))"

section \<open>Properties\<close>

subsection \<open>Every call keeps the cache consistent\<close>

lemma cache_consistent_init: "cache_consistent init"
  by (simp add: cache_consistent_def init_def super_init_grouped_property_def)

lemma cache_consistent_grouped_property_setter:
  "cache_consistent s \<Longrightarrow> cache_consistent (grouped_property_setter g s)"
  by (simp add: cache_consistent_def grouped_property_setter_def warn_def split: option.splits)

lemma cache_consistent_ansatz_setter: "cache_consistent (ansatz_setter a s)"
  by (simp add: cache_consistent_def ansatz_setter_def Let_def)

lemma cache_consistent_excitation_list_setter: "cache_consistent (excitation_list_setter xs s)"
  by (simp add: cache_consistent_def excitation_list_setter_def)

lemma cache_consistent_private_compute:
  "cache_consistent s \<Longrightarrow> cache_consistent (snd (private_compute s))"
  by (simp add: cache_consistent_def private_compute_def split: option.splits)

lemma snd_compute:
  "snd (compute a g s) =
     (let s1 = (case g of None \<Rightarrow> s | Some g' \<Rightarrow> grouped_property_setter g' s);
          s2 = (case a of None \<Rightarrow> s1 | Some a' \<Rightarrow> ansatz_setter a' s1)
      in if self_excitation_list s2 = None then s2 else snd (private_compute s2))"
  by (simp add: compute_def Let_def)

lemma cache_consistent_compute:
  "cache_consistent s \<Longrightarrow> cache_consistent (snd (compute a g s))"
  by (cases a; cases g)
     (simp_all add: snd_compute Let_def cache_consistent_grouped_property_setter
        cache_consistent_ansatz_setter cache_consistent_private_compute)

lemma snd_to_numpy_array:
  "snd (to_numpy_array s) = (if self_parameters s = None then snd (compute None None s) else s)"
  by (simp add: to_numpy_array_def split: prod.splits sum.splits)

lemma cache_consistent_to_numpy_array:
  "cache_consistent s \<Longrightarrow> cache_consistent (snd (to_numpy_array s))"
  by (simp add: snd_to_numpy_array cache_consistent_compute)

lemma cache_consistent_exec:
  assumes "cache_consistent s"
  shows "cache_consistent (snd (exec c s))"
proof (cases c)
  case (SetAnsatz a)
  then show ?thesis by (simp add: cache_consistent_ansatz_setter)
next
  case (SetExcitationList xs)
  then show ?thesis by (simp add: cache_consistent_excitation_list_setter)
next
  case (SetGroupedProperty g)
  with assms show ?thesis by (simp add: cache_consistent_grouped_property_setter)
next
  case (Compute a g)
  have "snd (exec (Compute a g) s) = snd (compute a g s)"
    by (simp split: prod.splits sum.splits)
  with assms Compute show ?thesis by (simp add: cache_consistent_compute)
next
  case ToNumpyArray
  have "snd (exec ToNumpyArray s) = snd (to_numpy_array s)"
    by (simp split: prod.splits sum.splits)
  with assms ToNumpyArray show ?thesis by (simp add: cache_consistent_to_numpy_array)
next
  case GetEnergy
  with assms show ?thesis by simp
qed

lemma cache_consistent_run: "cache_consistent s \<Longrightarrow> cache_consistent (run cs s)"
  by (induction cs arbitrary: s) (simp_all add: cache_consistent_exec)

subsection \<open>Calls without arguments\<close>

lemma compute_no_arguments:
  "compute None None s =
     (case self_excitation_list s of
        None \<Rightarrow> (Inl (QiskitNatureError excitation_list_not_set), s)
      | Some xs \<Rightarrow> (Inr (), s\<lparr>self_parameters := Some (np_zeros (length xs))\<rparr>))"
  by (simp add: compute_def private_compute_def split: option.splits)

lemma to_numpy_array_consistent:
  assumes "cache_consistent s" and "self_excitation_list s = Some xs"
  shows "fst (to_numpy_array s) = Inr (Some (np_zeros (length xs)))"
proof (cases "self_parameters s")
  case None
  with assms(2) show ?thesis
    by (simp add: to_numpy_array_def compute_no_arguments)
next
  case (Some p)
  with assms have "p = np_zeros (length xs)"
    by (simp add: cache_consistent_def)
  with Some show ?thesis
    by (simp add: to_numpy_array_def)
qed

subsection \<open>Calls that leave the excitation list unset\<close>

lemma grouped_property_setter_excitation_list:
  "self_excitation_list (grouped_property_setter g s) = self_excitation_list s"
  by (simp add: grouped_property_setter_def warn_def split: option.splits)

lemma exec_keeps_unset:
  assumes "\<not> sets_excitations c" and "self_excitation_list s = None"
  shows "self_excitation_list (snd (exec c s)) = None"
proof (cases c)
  case (Compute a g)
  with assms(1) have a: "a = None" by (cases a) simp_all
  have "snd (exec (Compute None g) s) = snd (compute None g s)"
    by (simp split: prod.splits sum.splits)
  with assms(2) Compute a show ?thesis
    by (cases g) (simp_all add: snd_compute grouped_property_setter_excitation_list)
next
  case ToNumpyArray
  have "snd (exec ToNumpyArray s) = snd (to_numpy_array s)"
    by (simp split: prod.splits sum.splits)
  with assms(2) ToNumpyArray show ?thesis
    by (simp add: snd_to_numpy_array compute_no_arguments)
next
  case (SetGroupedProperty g)
  with assms(2) show ?thesis by (simp add: grouped_property_setter_excitation_list)
qed (use assms in simp_all)

lemma run_keeps_unset:
  assumes "\<forall>c \<in> set cs. \<not> sets_excitations c" and "self_excitation_list s = None"
  shows "self_excitation_list (run cs s) = None"
  using assms by (induction cs arbitrary: s) (simp_all add: exec_keeps_unset)

subsection \<open>The specified properties\<close>

text \<open>
  C1. Whatever calls were made on a new instance, if they leave it with an excitation
  list of length \<open>n\<close> (assigned directly or taken from a circuit), \<open>to_numpy_array()\<close>
  does not raise and returns the array of \<open>n\<close> entries that are all zero.
\<close>

theorem to_numpy_array_all_zero:
  assumes "self_excitation_list (run cs init) = Some xs"
  shows "fst (to_numpy_array (run cs init)) = Inr (Some (replicate (length xs) 0))"
proof -
  have "cache_consistent (run cs init)"
    by (rule cache_consistent_run [OF cache_consistent_init])
  from to_numpy_array_consistent [OF this assms] show ?thesis
    by (simp add: np_zeros_def)
qed

theorem to_numpy_array_all_zero_witness:
  "self_excitation_list (run [SetExcitationList [([0], [2]), ([1], [3])]] init)
     = Some [([0], [2]), ([1], [3])]
   \<and> fst (to_numpy_array (run [SetExcitationList [([0], [2]), ([1], [3])]] init))
     = Inr (Some [0, 0])
   \<and> self_excitation_list
       (run [SetAnsatz \<lparr>ucc_excitation_list = None, ucc_generated = Some [([0, 1], [2, 3])]\<rparr>,
             Compute None None] init)
     = Some [([0, 1], [2, 3])]
   \<and> fst (to_numpy_array
       (run [SetAnsatz \<lparr>ucc_excitation_list = None, ucc_generated = Some [([0, 1], [2, 3])]\<rparr>,
             Compute None None] init))
     = Inr (Some [0])"
  using to_numpy_array_all_zero
    [of "[SetExcitationList [([0], [2]), ([1], [3])]]" "[([0], [2]), ([1], [3])]"]
    to_numpy_array_all_zero
    [of "[SetAnsatz \<lparr>ucc_excitation_list = None, ucc_generated = Some [([0, 1], [2, 3])]\<rparr>,
          Compute None None]" "[([0, 1], [2, 3])]"]
  by (simp add: excitation_list_setter_def ansatz_setter_def ucc_operators_def
        compute_no_arguments init_def)

text \<open>
  C2. On an instance that was never handed a circuit or an excitation list, whatever
  other calls were made on it, \<open>compute()\<close> without arguments raises the
  \<open>QiskitNatureError\<close> and leaves the instance as it was.
\<close>

theorem compute_never_set_raises:
  assumes "\<forall>c \<in> set cs. \<not> sets_excitations c"
  shows "compute None None (run cs init)
           = (Inl (QiskitNatureError excitation_list_not_set), run cs init)"
proof -
  have "self_excitation_list init = None" by (simp add: init_def)
  with assms have "self_excitation_list (run cs init) = None"
    by (rule run_keeps_unset)
  then show ?thesis by (simp add: compute_no_arguments)
qed

theorem compute_never_set_raises_witness:
  "\<not> sets_excitations GetEnergy \<and> \<not> sets_excitations ToNumpyArray
   \<and> compute None None init = (Inl (QiskitNatureError excitation_list_not_set), init)
   \<and> compute None None (run [GetEnergy, ToNumpyArray] init)
       = (Inl (QiskitNatureError excitation_list_not_set), run [GetEnergy, ToNumpyArray] init)"
  using compute_never_set_raises [of "[]"] compute_never_set_raises [of "[GetEnergy, ToNumpyArray]"]
  by simp

text \<open>
  C3. The specification wants a null reference energy stored as zero. The setter stores the field
  as it is: on a new instance, a container whose electronic energy has the reference
  energy \<open>None\<close> makes \<open>get_energy()\<close> return \<open>None\<close>, not \<open>0.0\<close>.
\<close>

theorem null_reference_energy_stored_as_None:
  "get_energy (grouped_property_setter
      \<lparr>gp_electronic_energy = Some \<lparr>reference_energy = None\<rparr>, gp_others = []\<rparr> init) = None"
  by (simp add: get_energy_def grouped_property_setter_def get_property_ElectronicEnergy_def
        truth_of_None_def)

text \<open>
  C4. After a container whose electronic energy has the reference energy \<open>E\<close> is set,
  \<open>get_energy()\<close> returns \<open>E\<close> itself.
\<close>

theorem get_energy_round_trip:
  assumes "gp_electronic_energy g = Some e" and "reference_energy e = Some E"
  shows "get_energy (snd (exec (SetGroupedProperty g) s)) = Some E"
  using assms
  by (simp add: get_energy_def grouped_property_setter_def get_property_ElectronicEnergy_def
        truth_of_None_def)

theorem get_energy_round_trip_witness:
  "gp_electronic_energy \<lparr>gp_electronic_energy = Some \<lparr>reference_energy = Some (- 1137 / 1000)\<rparr>,
      gp_others = []\<rparr> = Some \<lparr>reference_energy = Some (- 1137 / 1000)\<rparr>
   \<and> reference_energy \<lparr>reference_energy = Some (- 1137 / 1000)\<rparr> = Some (- 1137 / 1000)
   \<and> get_energy (snd (exec (SetGroupedProperty
        \<lparr>gp_electronic_energy = Some \<lparr>reference_energy = Some (- 1137 / 1000)\<rparr>,
         gp_others = []\<rparr>) init)) = Some (- 1137 / 1000)"
  using get_energy_round_trip
    [of "\<lparr>gp_electronic_energy = Some \<lparr>reference_energy = Some (- 1137 / 1000)\<rparr>, gp_others = []\<rparr>"
        "\<lparr>reference_energy = Some (- 1137 / 1000)\<rparr>" "- 1137 / 1000" init]
  by simp

text \<open>
  C5. Setting a container that yields no electronic energy does not raise; it emits one
  warning and changes nothing else, so \<open>get_energy()\<close> and the stored container are what
  they were, and on a new instance \<open>get_energy()\<close> is still \<open>0.0\<close>.
\<close>

theorem missing_energy_property_only_warns:
  assumes "gp_electronic_energy g = None"
  shows "exec (SetGroupedProperty g) s
           = (Inr NoValue, s\<lparr>emitted_warnings := emitted_warnings s @ [electronic_energy_not_obtained]\<rparr>)
         \<and> get_energy (snd (exec (SetGroupedProperty g) s)) = get_energy s
         \<and> self_grouped_property (snd (exec (SetGroupedProperty g) s)) = self_grouped_property s
         \<and> get_energy (snd (exec (SetGroupedProperty g) init)) = Some 0"
  using assms
  by (simp add: grouped_property_setter_def get_property_ElectronicEnergy_def warn_def
        get_energy_def init_def)

theorem missing_energy_property_only_warns_witness:
  "gp_electronic_energy \<lparr>gp_electronic_energy = None, gp_others = [''AngularMomentum'']\<rparr> = None
   \<and> exec (SetGroupedProperty \<lparr>gp_electronic_energy = None, gp_others = [''AngularMomentum'']\<rparr>) init
       = (Inr NoValue, init\<lparr>emitted_warnings := [electronic_energy_not_obtained]\<rparr>)
   \<and> get_energy (snd (exec (SetGroupedProperty
        \<lparr>gp_electronic_energy = None, gp_others = [''AngularMomentum'']\<rparr>) init)) = Some 0"
  using missing_energy_property_only_warns
    [of "\<lparr>gp_electronic_energy = None, gp_others = [''AngularMomentum'']\<rparr>" init]
  by (simp add: init_def get_energy_def)

text \<open>
  C6. Set a circuit that yields an excitation list \<open>xs\<close> and call \<open>compute()\<close>: the
  parameters are cached with the length of \<open>xs\<close>. Assign an excitation list \<open>ys\<close> next:
  the cache is cleared, and \<open>to_numpy_array()\<close> returns an array of the length of \<open>ys\<close>.
\<close>

theorem excitation_list_setter_invalidates_cache:
  assumes "ucc_generated a = Some xs"
  shows "fst (compute None None (ansatz_setter a s)) = Inr ()
         \<and> self_parameters (snd (compute None None (ansatz_setter a s)))
             = Some (replicate (length xs) 0)
         \<and> self_parameters (excitation_list_setter ys (snd (compute None None (ansatz_setter a s))))
             = None
         \<and> fst (to_numpy_array
                  (excitation_list_setter ys (snd (compute None None (ansatz_setter a s)))))
             = Inr (Some (replicate (length ys) 0))"
  using assms
  by (simp add: compute_no_arguments ansatz_setter_def ucc_operators_def Let_def
        excitation_list_setter_def to_numpy_array_def np_zeros_def)

theorem excitation_list_setter_invalidates_cache_witness:
  "ucc_generated \<lparr>ucc_excitation_list = None, ucc_generated = Some [([0], [2]), ([1], [3])]\<rparr>
     = Some [([0], [2]), ([1], [3])]
   \<and> self_parameters (snd (compute None None (ansatz_setter
        \<lparr>ucc_excitation_list = None, ucc_generated = Some [([0], [2]), ([1], [3])]\<rparr> init)))
     = Some [0, 0]
   \<and> fst (to_numpy_array (excitation_list_setter [([0], [1]), ([0], [2]), ([0], [3])]
        (snd (compute None None (ansatz_setter
          \<lparr>ucc_excitation_list = None, ucc_generated = Some [([0], [2]), ([1], [3])]\<rparr> init)))))
     = Inr (Some [0, 0, 0])"
  using excitation_list_setter_invalidates_cache
    [of "\<lparr>ucc_excitation_list = None, ucc_generated = Some [([0], [2]), ([1], [3])]\<rparr>"
        "[([0], [2]), ([1], [3])]" init "[([0], [1]), ([0], [2]), ([0], [3])]"]
  by simp

text \<open>
  C7. After any sequence of calls on a new instance, if both the parameters and the
  excitation list are there, they have the same length.
\<close>

theorem parameters_length_invariant:
  assumes "self_parameters (run cs init) = Some p"
    and "self_excitation_list (run cs init) = Some xs"
  shows "length p = length xs"
proof -
  have "cache_consistent (run cs init)"
    by (rule cache_consistent_run [OF cache_consistent_init])
  with assms show ?thesis
    by (simp add: cache_consistent_def np_zeros_def)
qed

theorem parameters_length_invariant_witness:
  "self_parameters (run [SetExcitationList [([0], [2])], Compute None None,
       SetExcitationList [([0], [2]), ([1], [3])], ToNumpyArray] init) = Some [0, 0]
   \<and> self_excitation_list (run [SetExcitationList [([0], [2])], Compute None None,
       SetExcitationList [([0], [2]), ([1], [3])], ToNumpyArray] init)
       = Some [([0], [2]), ([1], [3])]
   \<and> length [0::real, 0] = length [([0::int], [2::int]), ([1], [3])]"
  using parameters_length_invariant
    [of "[SetExcitationList [([0], [2])], Compute None None,
          SetExcitationList [([0], [2]), ([1], [3])], ToNumpyArray]"
        "[0, 0]" "[([0], [2]), ([1], [3])]"]
  by (simp add: compute_no_arguments to_numpy_array_def excitation_list_setter_def
        init_def np_zeros_def)

text \<open>
  C8. On an instance that holds an excitation list, two calls of \<open>compute()\<close> in a row both
  succeed, and the second leaves the instance, and so the parameters, exactly as the
  first left them.
\<close>

theorem compute_idempotent:
  assumes "self_excitation_list s = Some xs"
  shows "compute None None s = (Inr (), s\<lparr>self_parameters := Some (replicate (length xs) 0)\<rparr>)
         \<and> compute None None (snd (compute None None s)) = (Inr (), snd (compute None None s))
         \<and> self_parameters (snd (compute None None (snd (compute None None s))))
             = self_parameters (snd (compute None None s))"
  using assms by (simp add: compute_no_arguments np_zeros_def)

theorem compute_idempotent_witness:
  "self_excitation_list (excitation_list_setter [([0], [2]), ([1], [3])] init)
     = Some [([0], [2]), ([1], [3])]
   \<and> self_parameters (snd (compute None None
        (excitation_list_setter [([0], [2]), ([1], [3])] init))) = Some [0, 0]
   \<and> self_parameters (snd (compute None None (snd (compute None None
        (excitation_list_setter [([0], [2]), ([1], [3])] init))))) = Some [0, 0]"
  using compute_idempotent
    [of "excitation_list_setter [([0], [2]), ([1], [3])] init" "[([0], [2]), ([1], [3])]"]
  by (simp add: excitation_list_setter_def compute_no_arguments np_zeros_def)

text \<open>
  C9. On an instance that holds a circuit, assigning an excitation list clears the
  parameters and leaves the stored circuit and the stored reference energy as they were.
\<close>

theorem excitation_list_setter_frame:
  assumes "self_ansatz s = Some a"
  shows "self_parameters (excitation_list_setter xs s) = None
         \<and> self_ansatz (excitation_list_setter xs s) = Some a
         \<and> self_reference_energy (excitation_list_setter xs s) = self_reference_energy s"
  using assms by (simp add: excitation_list_setter_def)

theorem excitation_list_setter_frame_witness:
  "self_ansatz (snd (compute
       (Some \<lparr>ucc_excitation_list = None, ucc_generated = Some [([0], [2])]\<rparr>) None init))
     = Some \<lparr>ucc_excitation_list = Some [([0], [2])], ucc_generated = Some [([0], [2])]\<rparr>
   \<and> self_parameters (snd (compute
       (Some \<lparr>ucc_excitation_list = None, ucc_generated = Some [([0], [2])]\<rparr>) None init))
     = Some [0]
   \<and> self_parameters (excitation_list_setter [([0], [2]), ([1], [3])] (snd (compute
       (Some \<lparr>ucc_excitation_list = None, ucc_generated = Some [([0], [2])]\<rparr>) None init)))
     = None
   \<and> self_ansatz (excitation_list_setter [([0], [2]), ([1], [3])] (snd (compute
       (Some \<lparr>ucc_excitation_list = None, ucc_generated = Some [([0], [2])]\<rparr>) None init)))
     = Some \<lparr>ucc_excitation_list = Some [([0], [2])], ucc_generated = Some [([0], [2])]\<rparr>"
  using excitation_list_setter_frame
    [of "snd (compute (Some \<lparr>ucc_excitation_list = None, ucc_generated = Some [([0], [2])]\<rparr>)
           None init)"
        "\<lparr>ucc_excitation_list = Some [([0], [2])], ucc_generated = Some [([0], [2])]\<rparr>"
        "[([0], [2]), ([1], [3])]"]
  by (simp add: compute_def ansatz_setter_def ucc_operators_def private_compute_def
        np_zeros_def Let_def)

text \<open>
  C10. As stated, the property says that a failed \<open>compute(None, g)\<close> always leaves the
  stored reference energy reflecting \<open>g\<close> and the instance changed. It does not: on an
  instance that already holds \<open>g\<close> the failed call returns the instance as it was, and for
  a container without an electronic energy the stored energy and the stored container stay
  what they were.
\<close>

theorem compute_failure_state_change_counterexample:
  "self_excitation_list (run [SetGroupedProperty
       \<lparr>gp_electronic_energy = Some \<lparr>reference_energy = Some (- 1137 / 1000)\<rparr>,
        gp_others = []\<rparr>] init) = None
   \<and> compute None
        (Some \<lparr>gp_electronic_energy = Some \<lparr>reference_energy = Some (- 1137 / 1000)\<rparr>,
               gp_others = []\<rparr>)
        (run [SetGroupedProperty
           \<lparr>gp_electronic_energy = Some \<lparr>reference_energy = Some (- 1137 / 1000)\<rparr>,
            gp_others = []\<rparr>] init)
       = (Inl (QiskitNatureError excitation_list_not_set),
          run [SetGroupedProperty
            \<lparr>gp_electronic_energy = Some \<lparr>reference_energy = Some (- 1137 / 1000)\<rparr>,
             gp_others = []\<rparr>] init)
   \<and> self_excitation_list init = None
   \<and> fst (compute None (Some \<lparr>gp_electronic_energy = None, gp_others = []\<rparr>) init)
       = Inl (QiskitNatureError excitation_list_not_set)
   \<and> get_energy (snd (compute None (Some \<lparr>gp_electronic_energy = None, gp_others = []\<rparr>) init))
       = get_energy init
   \<and> self_grouped_property
        (snd (compute None (Some \<lparr>gp_electronic_energy = None, gp_others = []\<rparr>) init))
       = self_grouped_property init"
  by (simp add: compute_def grouped_property_setter_def get_property_ElectronicEnergy_def
        truth_of_None_def warn_def get_energy_def init_def)

text \<open>
  C10, amended. On an instance without an excitation list, \<open>compute(None, g)\<close> raises the
  \<open>QiskitNatureError\<close> after it has applied the container \<open>g\<close>: the instance is left
  exactly as the setter of the container leaves it, for every container. When \<open>g\<close> holds no
  electronic energy, that is the instance with one more warning and no attribute changed.
  When \<open>g\<close> holds an electronic energy, the stored reference energy and the stored container
  are those of \<open>g\<close> despite the error, and the failed call has left the instance unchanged
  exactly when it held that energy and that container before.
\<close>

theorem compute_failure_applies_container:
  assumes "self_excitation_list s = None"
  shows "compute None (Some g) s
           = (Inl (QiskitNatureError excitation_list_not_set), grouped_property_setter g s)
         \<and> (case gp_electronic_energy g of
               None \<Rightarrow>
                 snd (compute None (Some g) s)
                   = s\<lparr>emitted_warnings := emitted_warnings s @ [electronic_energy_not_obtained]\<rparr>
             | Some e \<Rightarrow>
                 get_energy (snd (compute None (Some g) s)) = reference_energy e
                 \<and> self_grouped_property (snd (compute None (Some g) s)) = Some g
                 \<and> (snd (compute None (Some g) s) = s)
                     = (get_energy s = reference_energy e \<and> self_grouped_property s = Some g))"
proof -
  have c: "compute None (Some g) s
             = (Inl (QiskitNatureError excitation_list_not_set), grouped_property_setter g s)"
    using assms by (simp add: compute_def grouped_property_setter_excitation_list)
  show ?thesis
  proof (cases "gp_electronic_energy g")
    case None
    then have "grouped_property_setter g s
                 = s\<lparr>emitted_warnings := emitted_warnings s @ [electronic_energy_not_obtained]\<rparr>"
      by (simp add: grouped_property_setter_def get_property_ElectronicEnergy_def warn_def)
    with c None show ?thesis by simp
  next
    case (Some e)
    then have g: "grouped_property_setter g s
               = s\<lparr>self_reference_energy := reference_energy e, self_grouped_property := Some g\<rparr>"
      by (simp add: grouped_property_setter_def get_property_ElectronicEnergy_def
            truth_of_None_def)
    have "(s\<lparr>self_reference_energy := reference_energy e, self_grouped_property := Some g\<rparr> = s)
            = (self_reference_energy s = reference_energy e \<and> self_grouped_property s = Some g)"
      by (cases s) auto
    with c g Some show ?thesis
      by (simp add: get_energy_def)
  qed
qed

theorem compute_failure_applies_container_witness:
  "self_excitation_list init = None
   \<and> fst (compute None (Some \<lparr>gp_electronic_energy = Some \<lparr>reference_energy = Some (- 1137 / 1000)\<rparr>,
        gp_others = []\<rparr>) init) = Inl (QiskitNatureError excitation_list_not_set)
   \<and> get_energy (snd (compute None
        (Some \<lparr>gp_electronic_energy = Some \<lparr>reference_energy = Some (- 1137 / 1000)\<rparr>,
           gp_others = []\<rparr>) init)) = Some (- 1137 / 1000)
   \<and> snd (compute None
        (Some \<lparr>gp_electronic_energy = Some \<lparr>reference_energy = Some (- 1137 / 1000)\<rparr>,
           gp_others = []\<rparr>) init) \<noteq> init
   \<and> snd (compute None (Some \<lparr>gp_electronic_energy = None, gp_others = []\<rparr>) init)
       = init\<lparr>emitted_warnings := [electronic_energy_not_obtained]\<rparr>"
  using compute_failure_applies_container
    [of init "\<lparr>gp_electronic_energy = Some \<lparr>reference_energy = Some (- 1137 / 1000)\<rparr>, gp_others = []\<rparr>"]
    compute_failure_applies_container
    [of init "\<lparr>gp_electronic_energy = None, gp_others = []\<rparr>"]
  by (simp add: init_def get_energy_def grouped_property_setter_def
        get_property_ElectronicEnergy_def truth_of_None_def warn_def)

end
